theory Spec2Isabelle
  imports Complex_Main
begin

section \<open>Python values\<close>

text \<open>
  A Python \<open>str\<close> is a sequence of Unicode code points, so text is a list of code points
  here (not of bytes): the Cyrillic letter em is the single element \<open>1084\<close>. ASCII
  literals are written through \<open>u\<close>; the Russian literals of the source are spelled out as
  code points.

  A Python \<open>float\<close> is modelled as a real number: arithmetic is exact, and rounding,
  overflow, infinities and NaN of IEEE doubles are outside the model.
\<close>

type_synonym ustr = "nat list"

definition u :: "string \<Rightarrow> ustr" where
  "u s = map of_char s"

text \<open>
  Exceptions are values. Every constructor stands for a subclass of Python's \<open>Exception\<close>
  and carries what \<open>str(exc)\<close> returns. \<open>KeyboardInterrupt\<close> and \<open>SystemExit\<close>, which
  \<open>except Exception\<close> does not catch, are outside the model.
\<close>

datatype exc = ValueError ustr | LookupError ustr | RuntimeError ustr | OtherException ustr

fun exc_str :: "exc \<Rightarrow> ustr" where
  "exc_str (ValueError m) = m"
| "exc_str (LookupError m) = m"
| "exc_str (RuntimeError m) = m"
| "exc_str (OtherException m) = m"

text \<open>The values stored in the \<open>data\<close> dictionaries of the reasoning steps.\<close>

datatype pyval = PStr ustr | PFloat real | PBool bool | PNone

text \<open>\<open>str(n)\<close> for an integer, and the format \<open>{x:.1f}\<close>.\<close>

fun str_nat :: "nat \<Rightarrow> ustr" where
  "str_nat n = (if n < 10 then [48 + n] else str_nat (n div 10) @ [48 + n mod 10])"

definition str_int :: "int \<Rightarrow> ustr" where
  "str_int i = (if i < 0 then 45 # str_nat (nat (- i)) else str_nat (nat i))"

definition round_half_even :: "real \<Rightarrow> int" where
  "round_half_even x =
     (let f = \<lfloor>x\<rfloor>; d = x - of_int f
      in if d < 1 / 2 then f else if 1 / 2 < d then f + 1 else if even f then f else f + 1)"

definition fmt_1f :: "real \<Rightarrow> ustr" where
  "fmt_1f x =
     (let n = round_half_even (\<bar>x\<bar> * 10)
      in (if x < 0 then [45] else []) @ str_nat (nat (n div 10)) @ [46] @ str_nat (nat (n mod 10)))"

section \<open>app/core/models.py\<close>

text \<open>
  The pydantic models. Field names shared by two models carry a prefix: \<open>b_name\<close>,
  \<open>b_source\<close> are \<open>BridgeInfo.name\<close>, \<open>BridgeInfo.source\<close>; \<open>a_name\<close>, \<open>a_source\<close> those
  of \<open>AnimalSpeed\<close>; \<open>sum_\<close> marks the fields of \<open>WikipediaPageSummary\<close> (\<open>sum_extract\<close> is its \<open>extract\<close>). Both numeric
  fields are declared \<open>float\<close> in the source, with no constraint on the sign.
\<close>

record WikipediaSearchResult =
  page_id :: int
  title :: ustr
  snippet :: "ustr option"

record WikipediaPageSummary =
  sum_page_id :: int
  sum_title :: ustr
  sum_extract :: ustr
  sum_description :: "ustr option"

record BridgeInfo =
  b_name :: ustr
  length_meters :: real
  b_source :: ustr

record AnimalSpeed =
  a_name :: ustr
  speed_m_s :: real
  a_source :: ustr
  speed_km_h :: "real option"

record ReasoningStep =
  description :: ustr
  data :: "(ustr \<times> pyval) list option"

record ReasoningResult =
  bridge :: BridgeInfo
  animal :: AnimalSpeed
  time_seconds :: real
  time_human_readable :: ustr
  steps :: "ReasoningStep list"

definition kmh_to_ms :: "real \<Rightarrow> real" where
  "kmh_to_ms kmh = kmh / 3.6"

definition from_kmh :: "ustr \<Rightarrow> real \<Rightarrow> ustr \<Rightarrow> AnimalSpeed" where
  "from_kmh nm kmh src =
     \<lparr>a_name = nm, speed_m_s = kmh_to_ms kmh, a_source = src, speed_km_h = Some kmh\<rparr>"

text \<open>
  The two labels of \<open>format_seconds\<close> are Russian words: \<open>sekund\<close> is the six letters
  U+0441 U+0435 U+043A U+0443 U+043D U+0434 ("seconds"), \<open>minut\<close> the five letters
  U+043C U+0438 U+043D U+0443 U+0442 ("minutes").
\<close>

definition sekund :: ustr where
  "sekund = [1089, 1077, 1082, 1091, 1085, 1076]"

definition minut :: ustr where
  "minut = [1084, 1080, 1085, 1091, 1090]"

definition format_seconds :: "real \<Rightarrow> ustr" where
  "format_seconds s =
     (if s < 60 then fmt_1f s @ [32] @ sekund
      else let minutes = \<lfloor>s / 60\<rfloor>; remainder = s - of_int minutes * 60
           in if remainder < 0.1 then str_int minutes @ [32] @ minut
              else str_int minutes @ [32] @ minut @ [32] @ fmt_1f remainder @ [32] @ sekund)"

section \<open>estimate_crossing_time (app/utils/reasoning.py)\<close>

text \<open>
  The message of the \<open>ValueError\<close> is the Russian sentence "the animal's speed must be
  positive"; the three step descriptions read "bridge length obtained", "animal speed
  obtained" and "crossing time computed".
\<close>

definition msg_speed_positive :: ustr where
  "msg_speed_positive =
     [1057, 1082, 1086, 1088, 1086, 1089, 1090, 1100, 32, 1078, 1080, 1074, 1086, 1090, 1085,
      1086, 1075, 1086, 32, 1076, 1086, 1083, 1078, 1085, 1072, 32, 1073, 1099, 1090, 1100, 32,
      1087, 1086, 1083, 1086, 1078, 1080, 1090, 1077, 1083, 1100, 1085, 1086, 1081]"

definition descr_bridge :: ustr where
  "descr_bridge =
     [1055, 1086, 1083, 1091, 1095, 1077, 1085, 1072, 32, 1076, 1083, 1080, 1085, 1072, 32,
      1084, 1086, 1089, 1090, 1072]"

definition descr_animal :: ustr where
  "descr_animal =
     [1055, 1086, 1083, 1091, 1095, 1077, 1085, 1072, 32, 1089, 1082, 1086, 1088, 1086, 1089,
      1090, 1100, 32, 1078, 1080, 1074, 1086, 1090, 1085, 1086, 1075, 1086]"

definition descr_time :: ustr where
  "descr_time =
     [1056, 1072, 1089, 1089, 1095, 1080, 1090, 1072, 1085, 1086, 32, 1074, 1088, 1077, 1084,
      1103, 32, 1087, 1077, 1088, 1077, 1089, 1077, 1095, 1077, 1085, 1080, 1103]"

definition bridge_step :: "BridgeInfo \<Rightarrow> ReasoningStep" where
  "bridge_step b =
     \<lparr>description = descr_bridge,
      data = Some [(u ''name'', PStr (b_name b)),
                   (u ''length_meters'', PFloat (length_meters b))]\<rparr>"

definition animal_step :: "AnimalSpeed \<Rightarrow> ReasoningStep" where
  "animal_step a =
     \<lparr>description = descr_animal,
      data = Some [(u ''name'', PStr (a_name a)),
                   (u ''speed_m_s'', PFloat (speed_m_s a)),
                   (u ''speed_km_h'', (case speed_km_h a of None \<Rightarrow> PNone | Some k \<Rightarrow> PFloat k))]\<rparr>"

definition time_step :: "real \<Rightarrow> ReasoningStep" where
  "time_step t = \<lparr>description = descr_time, data = Some [(u ''time_seconds'', PFloat t)]\<rparr>"

definition estimate_crossing_time :: "BridgeInfo \<Rightarrow> AnimalSpeed \<Rightarrow> exc + ReasoningResult" where
  "estimate_crossing_time b a =
     (if speed_m_s a \<le> 0 then Inl (ValueError msg_speed_positive)
      else let t = length_meters b / speed_m_s a
           in Inr \<lparr>bridge = b, animal = a, time_seconds = t,
                   time_human_readable = format_seconds t,
                   steps = [bridge_step b, animal_step a, time_step t]\<rparr>)"

section \<open>Regular expressions as Python's \<open>re\<close> matches them\<close>

text \<open>
  The two patterns of app/utils/reasoning.py are kept as syntax trees and run by a
  backtracking matcher. \<open>ends r s\<close> lists what is left of \<open>s\<close> after each way of matching
  \<open>r\<close> at its start, in the order in which \<open>re\<close> tries them: the left alternative before
  the right one, one more repetition before stopping (the quantifiers of the source are
  all greedy). The head of the list is the match \<open>re\<close> reports.

  Character classes: \<open>Digit\<close> is \<open>\d\<close> restricted to the ASCII digits (the other Unicode
  decimal digits, which \<open>\d\<close> and \<open>float\<close> also accept, are outside the model); \<open>Space\<close> is
  \<open>\s\<close>, the code points for which \<open>str.isspace\<close> holds; \<open>Ch x\<close> is the literal \<open>x\<close> under
  \<open>re.IGNORECASE\<close>, with case folding on Basic Latin and the basic Cyrillic block, which
  hold every letter of the two patterns.
\<close>

datatype rx = Digit | Space | Ch nat | OneOf "nat list" | Cat rx rx | Alt rx rx | Opt rx | Star rx

definition Plus :: "rx \<Rightarrow> rx" where
  "Plus a = Cat a (Star a)"

fun lits :: "nat \<Rightarrow> nat list \<Rightarrow> rx" where
  "lits c [] = Ch c"
| "lits c (d # ds) = Cat (Ch c) (lits d ds)"

definition is_digit :: "nat \<Rightarrow> bool" where
  "is_digit c = (48 \<le> c \<and> c \<le> 57)"

definition is_space :: "nat \<Rightarrow> bool" where
  "is_space c =
     ((9 \<le> c \<and> c \<le> 13) \<or> (28 \<le> c \<and> c \<le> 32) \<or> c = 133 \<or> c = 160 \<or> c = 5760
      \<or> (8192 \<le> c \<and> c \<le> 8202) \<or> c = 8232 \<or> c = 8233 \<or> c = 8239 \<or> c = 8287 \<or> c = 12288)"

definition lower :: "nat \<Rightarrow> nat" where
  "lower c =
     (if 65 \<le> c \<and> c \<le> 90 then c + 32
      else if 1040 \<le> c \<and> c \<le> 1071 then c + 32
      else if 1024 \<le> c \<and> c \<le> 1039 then c + 80
      else c)"

fun ends :: "rx \<Rightarrow> ustr \<Rightarrow> ustr list" where
  "ends Digit s = (case s of [] \<Rightarrow> [] | c # t \<Rightarrow> if is_digit c then [t] else [])"
| "ends Space s = (case s of [] \<Rightarrow> [] | c # t \<Rightarrow> if is_space c then [t] else [])"
| "ends (Ch x) s = (case s of [] \<Rightarrow> [] | c # t \<Rightarrow> if lower c = lower x then [t] else [])"
| "ends (OneOf xs) s = (case s of [] \<Rightarrow> [] | c # t \<Rightarrow> if c \<in> set xs then [t] else [])"
| "ends (Cat a b) s = concat (map (ends b) (ends a s))"
| "ends (Alt a b) s = ends a s @ ends b s"
| "ends (Opt a) s = ends a s @ [s]"
| "ends (Star a) s =
     concat (map (\<lambda>t. if length t < length s then ends (Star a) t else []) (ends a s)) @ [s]"

text \<open>
  A pattern \<open>(g)r\<close> whose only group \<open>g\<close> comes first: \<open>match_at\<close> is the match that
  starts at the head of \<open>s\<close>, as the text of the group and the rest of \<open>s\<close> after the whole
  match. \<open>findall\<close> is \<open>re.findall\<close>: the groups of the successive matches from left to
  right, the search resuming where the last match ended, or one character further where
  nothing matched. (Neither pattern of the source matches the empty string, so the branch
  for an empty match is never taken.)
\<close>

definition match_at :: "rx \<Rightarrow> rx \<Rightarrow> ustr \<Rightarrow> (ustr \<times> ustr) option" where
  "match_at g r s =
     (case concat (map (\<lambda>t. map (\<lambda>t'. (take (length s - length t) s, t')) (ends r t)) (ends g s)) of
        [] \<Rightarrow> None
      | m # _ \<Rightarrow> Some m)"

function findall :: "rx \<Rightarrow> rx \<Rightarrow> ustr \<Rightarrow> ustr list" where
  "findall g r s =
     (case match_at g r s of
        None \<Rightarrow> (case s of [] \<Rightarrow> [] | c # t \<Rightarrow> findall g r t)
      | Some (grp, rest) \<Rightarrow>
          grp # (if length rest < length s then findall g r rest
                 else (case s of [] \<Rightarrow> [] | c # t \<Rightarrow> findall g r t)))"
  by pat_completeness auto
termination
  by (relation "measure (\<lambda>(g, r, s). length s)") auto

section \<open>Text extraction (app/utils/reasoning.py)\<close>

text \<open>
  \<open>number_rx\<close> is the group \<open>(\d+(?:[.,]\d+)?)\<close> of both patterns. \<open>meter_rx\<close> is what
  follows it in the length pattern, \<open>\s*(?:M|METR)\<close> with the Cyrillic letter em (U+043C)
  for \<open>M\<close> and the Cyrillic word U+043C U+0435 U+0442 U+0440 for \<open>METR\<close>: the pattern of
  the source has no Latin letter. \<open>speed_rx\<close> is what follows the group in the speed
  pattern, \<open>\s*(?:KM\s*/\s*CH|KM\s*V\s*CHAS|km/h|kmh)\<close>, where \<open>KM\<close>, \<open>CH\<close>, \<open>V\<close> and
  \<open>CHAS\<close> stand for the Cyrillic U+043A U+043C, U+0447, U+0432 and U+0447 U+0430 U+0441,
  and the last two alternatives are in Latin letters, with no \<open>\s*\<close> in them.
\<close>

definition number_rx :: rx where
  "number_rx = Cat (Plus Digit) (Opt (Cat (OneOf [46, 44]) (Plus Digit)))"

definition meter_rx :: rx where
  "meter_rx = Cat (Star Space) (Alt (Ch 1084) (lits 1084 [1077, 1090, 1088]))"

definition speed_rx :: rx where
  "speed_rx =
     Cat (Star Space)
       (Alt (Cat (lits 1082 [1084]) (Cat (Star Space) (Cat (Ch 47) (Cat (Star Space) (Ch 1095)))))
       (Alt (Cat (lits 1082 [1084])
               (Cat (Star Space) (Cat (Ch 1074) (Cat (Star Space) (lits 1095 [1072, 1089])))))
       (Alt (lits 107 [109, 47, 104])
            (lits 107 [109, 104]))))"

text \<open>
  \<open>float(item.replace(",", "."))\<close> on the strings the group can capture: digits, or
  digits, a point and digits. Python's \<open>float\<close> accepts more (signs, exponents, blanks);
  on any other string the model answers \<open>ValueError\<close>, and the group never captures one.
\<close>

definition replace :: "nat \<Rightarrow> nat \<Rightarrow> ustr \<Rightarrow> ustr" where
  "replace old new s = map (\<lambda>c. if c = old then new else c) s"

definition digits_val :: "ustr \<Rightarrow> nat" where
  "digits_val ds = foldl (\<lambda>acc c. 10 * acc + (c - 48)) 0 ds"

definition msg_float :: ustr where
  "msg_float = u ''could not convert string to float''"

definition py_float :: "ustr \<Rightarrow> exc + real" where
  "py_float s =
     (let ip = takeWhile is_digit s
      in if ip = [] then Inl (ValueError msg_float)
         else (case dropWhile is_digit s of
                 [] \<Rightarrow> Inr (real (digits_val ip))
               | c # fp \<Rightarrow>
                   if c = 46 \<and> fp \<noteq> [] \<and> list_all is_digit fp
                   then Inr (real (digits_val ip) + real (digits_val fp) / 10 ^ length fp)
                   else Inl (ValueError msg_float)))"

fun floats :: "ustr list \<Rightarrow> exc + real list" where
  "floats [] = Inr []"
| "floats (x # xs) =
     (case py_float (replace 44 46 x) of
        Inl e \<Rightarrow> Inl e
      | Inr v \<Rightarrow> (case floats xs of Inl e \<Rightarrow> Inl e | Inr vs \<Rightarrow> Inr (v # vs)))"

text \<open>The built-in \<open>max\<close> of a list: the empty list raises.\<close>

definition msg_max :: ustr where
  "msg_max = u ''max() arg is an empty sequence''"

definition py_max :: "real list \<Rightarrow> exc + real" where
  "py_max vs = (case vs of [] \<Rightarrow> Inl (ValueError msg_max) | v # rest \<Rightarrow> Inr (fold max rest v))"

text \<open>
  The messages read "could not extract the length of the bridge from the text" and
  "could not extract the speed of the cheetah from the text", in Russian.
\<close>

definition msg_no_length :: ustr where
  "msg_no_length =
     [1053, 1077, 32, 1091, 1076, 1072, 1083, 1086, 1089, 1100, 32, 1080, 1079, 1074, 1083,
      1077, 1095, 1100, 32, 1076, 1083, 1080, 1085, 1091, 32, 1084, 1086, 1089, 1090, 1072, 32,
      1080, 1079, 32, 1090, 1077, 1082, 1089, 1090, 1072]"

definition msg_no_speed :: ustr where
  "msg_no_speed =
     [1053, 1077, 32, 1091, 1076, 1072, 1083, 1086, 1089, 1100, 32, 1080, 1079, 1074, 1083,
      1077, 1095, 1100, 32, 1089, 1082, 1086, 1088, 1086, 1089, 1090, 1100, 32, 1075, 1077,
      1087, 1072, 1088, 1076, 1072, 32, 1080, 1079, 32, 1090, 1077, 1082, 1089, 1090, 1072]"

definition parse_length_meters :: "ustr \<Rightarrow> exc + real" where
  "parse_length_meters text =
     (let matches = findall number_rx meter_rx text
      in if matches = [] then Inl (ValueError msg_no_length)
         else (case floats matches of Inl e \<Rightarrow> Inl e | Inr vs \<Rightarrow> py_max vs))"

definition parse_speed_kmh :: "ustr \<Rightarrow> exc + real" where
  "parse_speed_kmh text =
     (let matches = findall number_rx speed_rx text
      in if matches = [] then Inl (ValueError msg_no_speed)
         else (case floats matches of Inl e \<Rightarrow> Inl e | Inr vs \<Rightarrow> py_max vs))"

section \<open>The retrieval client (app/utils/wikipedia_client.py)\<close>

text \<open>
  The resolvers see a client only through its \<open>base_url\<close> and its two methods, which do
  network I/O: a call may raise, may return differently the next time, and changes the
  world. A method is therefore a function of the state \<open>'w\<close> of everything outside the
  program that returns an outcome and the next state. \<open>search_page\<close> returns \<open>None\<close> for no
  hit. (The \<open>lang\<close> parameter of the source is never passed and never read.)

  The client given to a resolver may be of any subclass (the tests pass some), so its
  methods are arbitrary. The client that \<open>get_animal_speed\<close> constructs itself is a plain
  \<open>WikipediaClient\<close>: \<open>WikipediaClass\<close> holds what the class does, the two methods as
  functions of the instance's \<open>base_url\<close> (all they read of \<open>self\<close>), and \<open>app_config\<close>,
  the call \<open>AppConfig()\<close> of the constructor, which reads the environment, may raise and
  otherwise gives the configured \<open>wikipedia_api_base\<close>.
\<close>

record 'w WikipediaClient =
  base_url :: ustr
  search_page :: "ustr \<Rightarrow> 'w \<Rightarrow> (exc + WikipediaSearchResult option) \<times> 'w"
  get_page_summary :: "int \<Rightarrow> bool \<Rightarrow> 'w \<Rightarrow> (exc + WikipediaPageSummary) \<times> 'w"

record 'w WikipediaClass =
  app_config :: "'w \<Rightarrow> (exc + ustr) \<times> 'w"
  class_search_page :: "ustr \<Rightarrow> ustr \<Rightarrow> 'w \<Rightarrow> (exc + WikipediaSearchResult option) \<times> 'w"
  class_get_page_summary :: "ustr \<Rightarrow> int \<Rightarrow> bool \<Rightarrow> 'w \<Rightarrow> (exc + WikipediaPageSummary) \<times> 'w"

definition new_WikipediaClient ::
  "'w WikipediaClass \<Rightarrow> ustr option \<Rightarrow> 'w \<Rightarrow> (exc + 'w WikipediaClient) \<times> 'w" where
  "new_WikipediaClient K url w =
     (case app_config K w of
        (Inl e, w1) \<Rightarrow> (Inl e, w1)
      | (Inr dflt, w1) \<Rightarrow>
          (let b = (case url of None \<Rightarrow> dflt | Some x \<Rightarrow> if x = [] then dflt else x)
           in (Inr \<lparr>base_url = b, search_page = class_search_page K b,
                    get_page_summary = class_get_page_summary K b\<rparr>, w1)))"

section \<open>Fact resolvers (app/utils/reasoning.py)\<close>

definition startswith :: "ustr \<Rightarrow> ustr \<Rightarrow> bool" where
  "startswith s p = (take (length p) s = p)"


text \<open>\<open>s.split(sep)[0]\<close>: the part of \<open>s\<close> before the first occurrence of \<open>sep\<close>.\<close>

fun split_head :: "ustr \<Rightarrow> ustr \<Rightarrow> ustr" where
  "split_head sep [] = []"
| "split_head sep (c # s) = (if startswith (c # s) sep then [] else c # split_head sep s)"

definition build_page_url :: "int \<Rightarrow> ustr \<Rightarrow> ustr" where
  "build_page_url pid api_base = split_head (u ''/w/'') api_base @ u ''/?curid='' @ str_int pid"

text \<open>
  \<open>big_stone_bridge\<close> is the query and the name of the fallback, the Russian name of the
  Bolshoy Kamenny Bridge; \<open>msg_bridge_not_found\<close> reads "article '...' not found" around
  that name, and the message for an animal puts the given name between \<open>msg_animal_pre\<close>
  and \<open>msg_not_found\<close>.
\<close>

definition big_stone_bridge :: ustr where
  "big_stone_bridge =
     [1041, 1086, 1083, 1100, 1096, 1086, 1081, 32, 1050, 1072, 1084, 1077, 1085, 1085, 1099,
      1081, 32, 1084, 1086, 1089, 1090]"

definition msg_not_found :: ustr where
  "msg_not_found = [39, 32, 1085, 1077, 32, 1085, 1072, 1081, 1076, 1077, 1085, 1072]"

definition msg_bridge_not_found :: ustr where
  "msg_bridge_not_found =
     [1057, 1090, 1072, 1090, 1100, 1103, 32, 39] @ big_stone_bridge @ msg_not_found"

definition msg_animal_pre :: ustr where
  "msg_animal_pre = [1057, 1090, 1072, 1090, 1100, 1103, 32, 1087, 1088, 1086, 32, 39]"

text \<open>
  The body of the \<open>try\<close> of \<open>get_bridge_info_big_stone_bridge\<close>, with \<open>Inl\<close> for an exception
  that leaves it, and the function itself, whose handler catches every exception.
\<close>

definition bridge_try :: "'w WikipediaClient \<Rightarrow> 'w \<Rightarrow> (exc + BridgeInfo) \<times> 'w" where
  "bridge_try client w =
     (case search_page client big_stone_bridge w of
        (Inl e, w1) \<Rightarrow> (Inl e, w1)
      | (Inr None, w1) \<Rightarrow> (Inl (LookupError msg_bridge_not_found), w1)
      | (Inr (Some search), w1) \<Rightarrow>
          (case get_page_summary client (page_id search) True w1 of
             (Inl e, w2) \<Rightarrow> (Inl e, w2)
           | (Inr summary, w2) \<Rightarrow>
               (case parse_length_meters (sum_extract summary) of
                  Inr len \<Rightarrow>
                    (Inr \<lparr>b_name = title search, length_meters = len,
                          b_source = build_page_url (page_id search) (base_url client)\<rparr>, w2)
                | Inl (ValueError m) \<Rightarrow>
                    (case get_page_summary client (page_id search) False w2 of
                       (Inl e, w3) \<Rightarrow> (Inl e, w3)
                     | (Inr summary2, w3) \<Rightarrow>
                         (case parse_length_meters (sum_extract summary2) of
                            Inl e \<Rightarrow> (Inl e, w3)
                          | Inr len \<Rightarrow>
                              (Inr \<lparr>b_name = title search, length_meters = len,
                                    b_source = build_page_url (page_id search) (base_url client)\<rparr>,
                               w3)))
                | Inl e \<Rightarrow> (Inl e, w2))))"

definition bridge_fallback :: "exc \<Rightarrow> BridgeInfo" where
  "bridge_fallback e =
     \<lparr>b_name = big_stone_bridge @ u '' (fallback)'', length_meters = 487,
      b_source = u ''fallback:'' @ exc_str e\<rparr>"

definition get_bridge_info_big_stone_bridge :: "'w WikipediaClient \<Rightarrow> 'w \<Rightarrow> BridgeInfo \<times> 'w" where
  "get_bridge_info_big_stone_bridge client w =
     (case bridge_try client w of
        (Inr b, w1) \<Rightarrow> (b, w1)
      | (Inl e, w1) \<Rightarrow> (bridge_fallback e, w1))"

text \<open>
  \<open>get_animal_speed\<close>. \<open>capitalize\<close> is \<open>str.capitalize\<close>, a parameter: the resolver only
  passes its result on. \<open>animal_search\<close> is the first part of the \<open>try\<close>, up to the choice
  of the effective client; it returns the hit, if any, and that client.
\<close>

definition en_prefix :: ustr where
  "en_prefix = u ''https://en.wikipedia.org''"

definition en_api :: ustr where
  "en_api = u ''https://en.wikipedia.org/w/api.php''"

definition animal_search ::
  "'w WikipediaClass \<Rightarrow> (ustr \<Rightarrow> ustr) \<Rightarrow> 'w WikipediaClient \<Rightarrow> ustr \<Rightarrow> 'w \<Rightarrow>
   (exc + WikipediaSearchResult option \<times> 'w WikipediaClient) \<times> 'w" where
  "animal_search K capitalize client animal_name w =
     (case (case search_page client animal_name w of
              (Inl e, w1) \<Rightarrow> (Inl e, w1)
            | (Inr (Some r), w1) \<Rightarrow> (Inr (Some r), w1)
            | (Inr None, w1) \<Rightarrow> search_page client (capitalize animal_name) w1) of
        (Inl e, w2) \<Rightarrow> (Inl e, w2)
      | (Inr search, w2) \<Rightarrow>
          if search = None \<and> \<not> startswith (base_url client) en_prefix
          then (case new_WikipediaClient K (Some en_api) w2 of
                  (Inl e, w3) \<Rightarrow> (Inl e, w3)
                | (Inr fallback, w3) \<Rightarrow>
                    (case search_page fallback (capitalize animal_name) w3 of
                       (Inl e, w4) \<Rightarrow> (Inl e, w4)
                     | (Inr None, w4) \<Rightarrow> (Inr (None, client), w4)
                     | (Inr (Some r), w4) \<Rightarrow> (Inr (Some r, fallback), w4)))
          else (Inr (search, client), w2))"

definition animal_try ::
  "'w WikipediaClass \<Rightarrow> (ustr \<Rightarrow> ustr) \<Rightarrow> 'w WikipediaClient \<Rightarrow> ustr \<Rightarrow> 'w \<Rightarrow>
   (exc + AnimalSpeed) \<times> 'w" where
  "animal_try K capitalize client animal_name w =
     (case animal_search K capitalize client animal_name w of
        (Inl e, w1) \<Rightarrow> (Inl e, w1)
      | (Inr (None, effective_client), w1) \<Rightarrow>
          (Inl (LookupError (msg_animal_pre @ animal_name @ msg_not_found)), w1)
      | (Inr (Some search, effective_client), w1) \<Rightarrow>
          (case get_page_summary effective_client (page_id search) True w1 of
             (Inl e, w2) \<Rightarrow> (Inl e, w2)
           | (Inr summary, w2) \<Rightarrow>
               (case parse_speed_kmh (sum_extract summary) of
                  Inr kmh \<Rightarrow>
                    (Inr (from_kmh (title search) kmh
                            (build_page_url (page_id search) (base_url effective_client))), w2)
                | Inl (ValueError m) \<Rightarrow>
                    (case get_page_summary effective_client (page_id search) False w2 of
                       (Inl e, w3) \<Rightarrow> (Inl e, w3)
                     | (Inr summary2, w3) \<Rightarrow>
                         (case parse_speed_kmh (sum_extract summary2) of
                            Inl e \<Rightarrow> (Inl e, w3)
                          | Inr kmh \<Rightarrow>
                              (Inr (from_kmh (title search) kmh
                                      (build_page_url (page_id search)
                                         (base_url effective_client))), w3)))
                | Inl e \<Rightarrow> (Inl e, w2))))"

definition animal_fallback :: "ustr \<Rightarrow> exc \<Rightarrow> AnimalSpeed" where
  "animal_fallback animal_name e =
     from_kmh (animal_name @ u '' (fallback)'') 90 (u ''fallback:'' @ exc_str e)"

definition get_animal_speed ::
  "'w WikipediaClass \<Rightarrow> (ustr \<Rightarrow> ustr) \<Rightarrow> 'w WikipediaClient \<Rightarrow> ustr \<Rightarrow> 'w \<Rightarrow>
   AnimalSpeed \<times> 'w" where
  "get_animal_speed K capitalize client animal_name w =
     (case animal_try K capitalize client animal_name w of
        (Inr a, w1) \<Rightarrow> (a, w1)
      | (Inl e, w1) \<Rightarrow> (animal_fallback animal_name e, w1))"

section \<open>Self-check (app/utils/self_check.py)\<close>

definition TIME_RANGE :: "real \<times> real" where
  "TIME_RANGE = (0.5, 600)"

definition BRIDGE_RANGE :: "real \<times> real" where
  "BRIDGE_RANGE = (20, 1000)"

definition SPEED_RANGE :: "real \<times> real" where
  "SPEED_RANGE = (5, 100)"

definition check_range :: "real \<Rightarrow> real \<Rightarrow> real \<Rightarrow> ustr \<Rightarrow> ustr \<Rightarrow> ReasoningStep" where
  "check_range v min_v max_v descr units =
     (let ok = (min_v \<le> v \<and> v \<le> max_v);
          status = (if ok then u ''ok'' else u ''fail'')
      in \<lparr>description = descr,
          data = Some [(u ''value'', PFloat v), (u ''min'', PFloat min_v), (u ''max'', PFloat max_v),
                       (u ''units'', PStr units), (u ''status'', PStr status)]\<rparr>)"

text \<open>
  The optional language model: \<open>None\<close>, or what \<open>get_model\<close> followed by \<open>invoke\<close> on the
  prompt built from the result comes to, an exception or the text of the opinion.
\<close>

type_synonym LLMClient = "ReasoningResult \<Rightarrow> exc + ustr"

definition llm_self_check :: "ReasoningResult \<Rightarrow> LLMClient option \<Rightarrow> ReasoningStep option" where
  "llm_self_check result llm_client =
     (case llm_client of
        None \<Rightarrow> None
      | Some llm \<Rightarrow>
          (case llm result of
             Inr opinion \<Rightarrow>
               Some \<lparr>description = u ''LLM self-check (opinion)'',
                     data = Some [(u ''comment'', PStr opinion)]\<rparr>
           | Inl e \<Rightarrow>
               Some \<lparr>description = u ''LLM self-check failed'',
                     data = Some [(u ''error'', PStr (exc_str e))]\<rparr>))"

text \<open>
  The descriptions read "check of the crossing time", "check of the bridge length",
  "check of the cheetah's speed" and "self-check summary"; the units are "seconds",
  "metres" and "m/s", all in Russian. \<open>step_status_ok\<close> is the test
  \<open>step.data and step.data.get("status") == "ok"\<close>.
\<close>

definition descr_check_time :: ustr where
  "descr_check_time =
     [1055, 1088, 1086, 1074, 1077, 1088, 1082, 1072, 32, 1074, 1088, 1077, 1084, 1077, 1085,
      1080, 32, 1087, 1077, 1088, 1077, 1089, 1077, 1095, 1077, 1085, 1080, 1103]"

definition descr_check_bridge :: ustr where
  "descr_check_bridge =
     [1055, 1088, 1086, 1074, 1077, 1088, 1082, 1072, 32, 1076, 1083, 1080, 1085, 1099, 32,
      1084, 1086, 1089, 1090, 1072]"

definition descr_check_speed :: ustr where
  "descr_check_speed =
     [1055, 1088, 1086, 1074, 1077, 1088, 1082, 1072, 32, 1089, 1082, 1086, 1088, 1086, 1089,
      1090, 1080, 32, 1075, 1077, 1087, 1072, 1088, 1076, 1072]"

definition units_seconds :: ustr where
  "units_seconds = [1089, 1077, 1082, 1091, 1085, 1076, 1099]"

definition units_meters :: ustr where
  "units_meters = [1084, 1077, 1090, 1088, 1099]"

definition units_m_s :: ustr where
  "units_m_s = [1084, 47, 1089]"

definition descr_summary :: ustr where
  "descr_summary = [1048, 1090, 1086, 1075, 32] @ u ''self-check''"

definition summary_note :: ustr where
  "summary_note =
     [1055, 1088, 1080, 32] @ u ''ok=False'' @
     [32, 1088, 1077, 1079, 1091, 1083, 1100, 1090, 1072, 1090, 32, 1089, 1086, 1084, 1085,
      1080, 1090, 1077, 1083, 1077, 1085, 46, 32] @ u ''TODO:'' @
     [32, 1087, 1077, 1088, 1077, 1089, 1095, 1080, 1090, 1072, 1090, 1100, 32, 1089, 32, 1072,
      1083, 1100, 1090, 1077, 1088, 1085, 1072, 1090, 1080, 1074, 1085, 1099, 1084, 1080, 32,
      1080, 1089, 1090, 1086, 1095, 1085, 1080, 1082, 1072, 1084, 1080, 32, 1087, 1088, 1080,
      32, 1085, 1077, 1086, 1073, 1093, 1086, 1076, 1080, 1084, 1086, 1089, 1090, 1080, 46]"

definition step_status_ok :: "ReasoningStep \<Rightarrow> bool" where
  "step_status_ok step =
     (case data step of
        None \<Rightarrow> False
      | Some d \<Rightarrow> d \<noteq> [] \<and> map_of d (u ''status'') = Some (PStr (u ''ok'')))"

definition summary_step :: "bool \<Rightarrow> ReasoningStep" where
  "summary_step ok =
     \<lparr>description = descr_summary,
      data = Some [(u ''ok'', PBool ok), (u ''note'', PStr summary_note)]\<rparr>"

definition self_check_result ::
  "ReasoningResult \<Rightarrow> LLMClient option \<Rightarrow> bool \<times> ReasoningStep list" where
  "self_check_result result llm_client =
     (let time_st = check_range (time_seconds result) (fst TIME_RANGE) (snd TIME_RANGE)
                      descr_check_time units_seconds;
          bridge_st = check_range (length_meters (bridge result)) (fst BRIDGE_RANGE)
                        (snd BRIDGE_RANGE) descr_check_bridge units_meters;
          speed_st = check_range (speed_m_s (animal result)) (fst SPEED_RANGE) (snd SPEED_RANGE)
                       descr_check_speed units_m_s;
          sts = [time_st, bridge_st, speed_st];
          ok = list_all step_status_ok sts;
          sts2 = sts @ [summary_step ok]
      in (case llm_self_check result llm_client of
            None \<Rightarrow> (ok, sts2)
          | Some llm_step \<Rightarrow> (ok, sts2 @ [llm_step])))"

section \<open>Concrete inputs\<close>

text \<open>The inputs of the repository's tests, used to run the definitions.\<close>

definition mock_bridge :: BridgeInfo where
  "mock_bridge = \<lparr>b_name = u ''Mock Bridge'', length_meters = 200, b_source = u ''mock://bridge''\<rparr>"

definition mock_cheetah :: AnimalSpeed where
  "mock_cheetah =
     \<lparr>a_name = u ''Mock Cheetah'', speed_m_s = 25, a_source = u ''mock://cheetah'',
      speed_km_h = None\<rparr>"

definition any_bridge :: BridgeInfo where
  "any_bridge = \<lparr>b_name = u ''Any Bridge'', length_meters = 100, b_source = u ''mock://bridge''\<rparr>"

definition slow_animal :: AnimalSpeed where
  "slow_animal =
     \<lparr>a_name = u ''Slow Animal'', speed_m_s = 0, a_source = u ''mock://animal'',
      speed_km_h = None\<rparr>"

definition result_with :: "real \<Rightarrow> real \<Rightarrow> real \<Rightarrow> ReasoningResult" where
  "result_with t len v =
     \<lparr>bridge = mock_bridge\<lparr>length_meters := len\<rparr>, animal = mock_cheetah\<lparr>speed_m_s := v\<rparr>,
      time_seconds = t, time_human_readable = format_seconds t, steps = []\<rparr>"

text \<open>The value under \<open>"status"\<close> in the data of a step.\<close>

definition step_status :: "ReasoningStep \<Rightarrow> pyval option" where
  "step_status step = (case data step of None \<Rightarrow> None | Some d \<Rightarrow> map_of d (u ''status''))"








text \<open>
  Pages that state a zero: "bridge length 0 m" and "maximal speed 0 km/h", in Russian as
  the patterns require.
\<close>

definition text_zero_length :: ustr where
  "text_zero_length =
     [1044, 1083, 1080, 1085, 1072, 32, 1084, 1086, 1089, 1090, 1072, 32, 48, 32, 1084, 46]"

definition text_zero_speed :: ustr where
  "text_zero_speed =
     [1052, 1072, 1082, 1089, 1080, 1084, 1072, 1083, 1100, 1085, 1072, 1103, 32, 1089, 1082,
      1086, 1088, 1086, 1089, 1090, 1100, 32, 48, 32, 1082, 1084, 47, 1095, 46]"

text \<open>
  Stub clients after those of tests/test_reasoning.py, over the trivial world.
  \<open>failing_client\<close> raises on every search. \<open>page_client\<close> finds a page for every query and
  serves the given text as its extract. \<open>patched_class\<close> is the class with both methods
  patched as in the test of the English fallback: the search finds nothing on a Russian
  base URL and a page numbered 100, titled with the query and " (EN)", elsewhere; every
  summary has the given text. \<open>ru_client\<close> is an instance of it on the Russian base URL.
  \<open>capitalize_ascii\<close> is \<open>str.capitalize\<close> on ASCII text.
\<close>

definition ru_api :: ustr where
  "ru_api = u ''https://ru.wikipedia.org/w/api.php''"


definition page_summary :: "int \<Rightarrow> ustr \<Rightarrow> WikipediaPageSummary" where
  "page_summary pid text =
     \<lparr>sum_page_id = pid, sum_title = u ''dummy'', sum_extract = text, sum_description = None\<rparr>"

definition page_client :: "ustr \<Rightarrow> unit WikipediaClient" where
  "page_client text =
     \<lparr>base_url = ru_api,
      search_page = (\<lambda>t w. (Inr (Some \<lparr>page_id = 1, title = t, snippet = None\<rparr>), w)),
      get_page_summary = (\<lambda>pid intro w. (Inr (page_summary pid text), w))\<rparr>"

definition patched_class :: "ustr \<Rightarrow> unit WikipediaClass" where
  "patched_class text =
     \<lparr>app_config = (\<lambda>w. (Inr ru_api, w)),
      class_search_page =
        (\<lambda>b t w. (if startswith b (u ''https://ru'') then Inr None
                    else Inr (Some \<lparr>page_id = 100, title = t @ u '' (EN)'', snippet = None\<rparr>), w)),
      class_get_page_summary = (\<lambda>b pid intro w. (Inr (page_summary pid text), w))\<rparr>"

definition ru_client :: "ustr \<Rightarrow> unit WikipediaClient" where
  "ru_client text =
     \<lparr>base_url = ru_api,
      search_page = class_search_page (patched_class text) ru_api,
      get_page_summary = class_get_page_summary (patched_class text) ru_api\<rparr>"

definition capitalize_ascii :: "ustr \<Rightarrow> ustr" where
  "capitalize_ascii s =
     (case s of
        [] \<Rightarrow> []
      | c # t \<Rightarrow> (if 97 \<le> c \<and> c \<le> 122 then c - 32 else c)
                 # map (\<lambda>x. if 65 \<le> x \<and> x \<le> 90 then x + 32 else x) t)"

section \<open>Evaluation of the formatter\<close>







section \<open>The crossing-time calculator\<close>



text \<open>
  C3. For every bridge and every animal whose speed is zero or negative,
  \<open>estimate_crossing_time\<close> raises the \<open>ValueError\<close> whose message says that the speed
  must be positive, and returns no result: the function has no handler, so the error
  reaches the caller.
\<close>

theorem estimate_crossing_time_nonpositive:
  assumes "speed_m_s a \<le> 0"
  shows "estimate_crossing_time b a = Inl (ValueError msg_speed_positive)
         \<and> (\<forall>r. estimate_crossing_time b a \<noteq> Inr r)"
  using assms by (simp add: estimate_crossing_time_def)

theorem estimate_crossing_time_nonpositive_witness:
  "speed_m_s slow_animal \<le> 0
   \<and> estimate_crossing_time any_bridge slow_animal = Inl (ValueError msg_speed_positive)
   \<and> speed_m_s (slow_animal\<lparr>speed_m_s := - 3\<rparr>) \<le> 0
   \<and> estimate_crossing_time any_bridge (slow_animal\<lparr>speed_m_s := - 3\<rparr>)
       = Inl (ValueError msg_speed_positive)"
proof -
  have z: "speed_m_s slow_animal \<le> 0"
    by (simp add: slow_animal_def)
  have n: "speed_m_s (slow_animal\<lparr>speed_m_s := - 3\<rparr>) \<le> 0"
    by simp
  show ?thesis
    using z n estimate_crossing_time_nonpositive [OF z, of any_bridge]
      estimate_crossing_time_nonpositive [OF n, of any_bridge]
    by blast
qed



section \<open>Human-readable time\<close>






section \<open>Self-check\<close>

lemma step_status_check_range:
  "step_status (check_range v lo hi d un)
     = Some (PStr (if lo \<le> v \<and> v \<le> hi then u ''ok'' else u ''fail''))"
  by (simp add: step_status_def check_range_def Let_def u_def)

lemma step_status_ok_check_range:
  "step_status_ok (check_range v lo hi d un) = (lo \<le> v \<and> v \<le> hi)"
  by (simp add: step_status_ok_def check_range_def Let_def u_def)

lemma self_check_result_fst:
  "fst (self_check_result r llm)
     = ((1 / 2 \<le> time_seconds r \<and> time_seconds r \<le> 600)
        \<and> (20 \<le> length_meters (bridge r) \<and> length_meters (bridge r) \<le> 1000)
        \<and> (5 \<le> speed_m_s (animal r) \<and> speed_m_s (animal r) \<le> 100))"
  by (simp add: self_check_result_def Let_def step_status_ok_check_range TIME_RANGE_def
      BRIDGE_RANGE_def SPEED_RANGE_def split: option.split)

lemma self_check_result_snd:
  "snd (self_check_result r llm)
     = [check_range (time_seconds r) (1 / 2) 600 descr_check_time units_seconds,
        check_range (length_meters (bridge r)) 20 1000 descr_check_bridge units_meters,
        check_range (speed_m_s (animal r)) 5 100 descr_check_speed units_m_s,
        summary_step (fst (self_check_result r llm))]
       @ (case llm_self_check r llm of None \<Rightarrow> [] | Some st \<Rightarrow> [st])"
  by (simp add: self_check_result_def Let_def TIME_RANGE_def BRIDGE_RANGE_def SPEED_RANGE_def
      split: option.split)

text \<open>
  C7. For every result and every optional language model, \<open>self_check_result\<close> makes three
  inclusive range checks, of \<open>time_seconds\<close> in [0.5, 600], of the bridge's
  \<open>length_meters\<close> in [20, 1000] and of the animal's \<open>speed_m_s\<close> in [5, 100]. Each gives
  one step whose status is "ok" when the value is in its range and "fail" when not. The
  flag returned is the conjunction of the three statuses being "ok". The steps returned
  are the three checks in that order, then the summary step, which records the flag, then
  the step of the language model when one is given. A result with time 8, length 200 and
  speed 25 passes; with time 1000 the time check fails and the result does not pass.
\<close>

theorem self_check_result_ranges:
  "fst (self_check_result r llm)
     = ((1 / 2 \<le> time_seconds r \<and> time_seconds r \<le> 600)
        \<and> (20 \<le> length_meters (bridge r) \<and> length_meters (bridge r) \<le> 1000)
        \<and> (5 \<le> speed_m_s (animal r) \<and> speed_m_s (animal r) \<le> 100))
   \<and> (\<exists>ts bs ss rest.
        snd (self_check_result r llm) = [ts, bs, ss, summary_step (fst (self_check_result r llm))] @ rest
        \<and> rest = (case llm_self_check r llm of None \<Rightarrow> [] | Some st \<Rightarrow> [st])
        \<and> step_status ts
            = Some (PStr (if 1 / 2 \<le> time_seconds r \<and> time_seconds r \<le> 600
                          then u ''ok'' else u ''fail''))
        \<and> step_status bs
            = Some (PStr (if 20 \<le> length_meters (bridge r) \<and> length_meters (bridge r) \<le> 1000
                          then u ''ok'' else u ''fail''))
        \<and> step_status ss
            = Some (PStr (if 5 \<le> speed_m_s (animal r) \<and> speed_m_s (animal r) \<le> 100
                          then u ''ok'' else u ''fail''))
        \<and> fst (self_check_result r llm)
            = (step_status ts = Some (PStr (u ''ok'')) \<and> step_status bs = Some (PStr (u ''ok''))
               \<and> step_status ss = Some (PStr (u ''ok''))))
   \<and> map_of (the (data (summary_step (fst (self_check_result r llm))))) (u ''ok'')
       = Some (PBool (fst (self_check_result r llm)))
   \<and> fst (self_check_result (result_with 8 200 25) None) = True
   \<and> map step_status (take 3 (snd (self_check_result (result_with 8 200 25) None)))
       = [Some (PStr (u ''ok'')), Some (PStr (u ''ok'')), Some (PStr (u ''ok''))]
   \<and> fst (self_check_result (result_with 1000 200 25) None) = False
   \<and> map step_status (take 3 (snd (self_check_result (result_with 1000 200 25) None)))
       = [Some (PStr (u ''fail'')), Some (PStr (u ''ok'')), Some (PStr (u ''ok''))]"
proof -
  have neq: "u ''fail'' \<noteq> u ''ok''"
    by (simp add: u_def)
  have steps: "\<exists>ts bs ss rest.
        snd (self_check_result r llm) = [ts, bs, ss, summary_step (fst (self_check_result r llm))] @ rest
        \<and> rest = (case llm_self_check r llm of None \<Rightarrow> [] | Some st \<Rightarrow> [st])
        \<and> step_status ts
            = Some (PStr (if 1 / 2 \<le> time_seconds r \<and> time_seconds r \<le> 600
                          then u ''ok'' else u ''fail''))
        \<and> step_status bs
            = Some (PStr (if 20 \<le> length_meters (bridge r) \<and> length_meters (bridge r) \<le> 1000
                          then u ''ok'' else u ''fail''))
        \<and> step_status ss
            = Some (PStr (if 5 \<le> speed_m_s (animal r) \<and> speed_m_s (animal r) \<le> 100
                          then u ''ok'' else u ''fail''))
        \<and> fst (self_check_result r llm)
            = (step_status ts = Some (PStr (u ''ok'')) \<and> step_status bs = Some (PStr (u ''ok''))
               \<and> step_status ss = Some (PStr (u ''ok'')))"
    apply (rule exI [of _ "check_range (time_seconds r) (1 / 2) 600 descr_check_time units_seconds"])
    apply (rule exI [of _ "check_range (length_meters (bridge r)) 20 1000 descr_check_bridge units_meters"])
    apply (rule exI [of _ "check_range (speed_m_s (animal r)) 5 100 descr_check_speed units_m_s"])
    apply (rule exI [of _ "case llm_self_check r llm of None \<Rightarrow> [] | Some st \<Rightarrow> [st]"])
    using neq
    apply (simp add: self_check_result_snd self_check_result_fst step_status_check_range)
    apply blast
    done
  have summ: "map_of (the (data (summary_step (fst (self_check_result r llm))))) (u ''ok'')
       = Some (PBool (fst (self_check_result r llm)))"
    by (simp add: summary_step_def)
  have ex1: "fst (self_check_result (result_with 8 200 25) None) = True"
    by (simp add: self_check_result_fst result_with_def)
  have ex2: "fst (self_check_result (result_with 1000 200 25) None) = False"
    by (simp add: self_check_result_fst result_with_def)
  have st1: "map step_status (take 3 (snd (self_check_result (result_with 8 200 25) None)))
       = [Some (PStr (u ''ok'')), Some (PStr (u ''ok'')), Some (PStr (u ''ok''))]"
    by (simp add: self_check_result_snd step_status_check_range result_with_def)
  have st2: "map step_status (take 3 (snd (self_check_result (result_with 1000 200 25) None)))
       = [Some (PStr (u ''fail'')), Some (PStr (u ''ok'')), Some (PStr (u ''ok''))]"
    by (simp add: self_check_result_snd step_status_check_range result_with_def)
  from self_check_result_fst [of r llm] steps summ ex1 ex2 st1 st2 show ?thesis
    by blast
qed

section \<open>The matcher\<close>

text \<open>
  What is left after a match is a suffix of the text; the group \<open>number_rx\<close> only captures
  decimal strings, on which \<open>float\<close> succeeds with a non-negative value.
\<close>

lemma ends_Star:
  "ends (Star a) s =
     concat (map (\<lambda>t. if length t < length s then ends (Star a) t else []) (ends a s)) @ [s]"
  by simp

declare ends.simps(8) [simp del]

lemma ends_length: "t \<in> set (ends r s) \<Longrightarrow> length t \<le> length s"
proof (induction r s arbitrary: t rule: ends.induct)
  case (5 a b s)
  then obtain m where m: "m \<in> set (ends a s)" and t: "t \<in> set (ends b m)"
    by auto
  from "5.IH"(1) [OF m] "5.IH"(2) [OF m t] show ?case
    by simp
next
  case (8 a s)
  from "8.prems" have "t = s \<or> (\<exists>m \<in> set (ends a s). length m < length s \<and> t \<in> set (ends (Star a) m))"
    unfolding ends_Star [of a s] by (auto split: if_splits)
  then show ?case
  proof
    assume "t = s"
    then show ?thesis
      by simp
  next
    assume "\<exists>m \<in> set (ends a s). length m < length s \<and> t \<in> set (ends (Star a) m)"
    then obtain m where "m \<in> set (ends a s)" "length m < length s" "t \<in> set (ends (Star a) m)"
      by blast
    from "8.IH"(2) [OF this] \<open>length m < length s\<close> show ?thesis
      by simp
  qed
qed (auto split: list.splits if_splits)

lemma ends_Star_Digit:
  "t \<in> set (ends (Star Digit) s) \<Longrightarrow> \<exists>ds. s = ds @ t \<and> list_all is_digit ds"
proof (induction s arbitrary: t)
  case Nil
  then show ?case
    by (simp add: ends_Star)
next
  case (Cons c s)
  show ?case
  proof (cases "is_digit c")
    case True
    with Cons.prems have "t \<in> set (ends (Star Digit) s) \<or> t = c # s"
      by (auto simp: ends_Star [of Digit "c # s"])
    then show ?thesis
    proof
      assume "t \<in> set (ends (Star Digit) s)"
      from Cons.IH [OF this] obtain ds where "s = ds @ t" "list_all is_digit ds"
        by blast
      with True have "c # s = (c # ds) @ t \<and> list_all is_digit (c # ds)"
        by simp
      then show ?thesis
        by blast
    next
      assume "t = c # s"
      then have "c # s = [] @ t \<and> list_all is_digit []"
        by simp
      then show ?thesis
        by blast
    qed
  next
    case False
    with Cons.prems have "t = c # s"
      by (simp add: ends_Star [of Digit "c # s"])
    then have "c # s = [] @ t \<and> list_all is_digit []"
      by simp
    then show ?thesis
      by blast
  qed
qed

lemma ends_Plus_Digit:
  assumes "t \<in> set (ends (Plus Digit) s)"
  shows "\<exists>ds. ds \<noteq> [] \<and> s = ds @ t \<and> list_all is_digit ds"
proof (cases s)
  case Nil
  with assms show ?thesis
    by (simp add: Plus_def)
next
  case (Cons c s')
  with assms have d: "is_digit c" and t: "t \<in> set (ends (Star Digit) s')"
    by (auto simp: Plus_def split: if_splits)
  from ends_Star_Digit [OF t] obtain ds where "s' = ds @ t" "list_all is_digit ds"
    by blast
  with d Cons have "c # ds \<noteq> [] \<and> s = (c # ds) @ t \<and> list_all is_digit (c # ds)"
    by simp
  then show ?thesis
    by blast
qed

lemma py_float_digits:
  assumes "ip \<noteq> []" and "list_all is_digit ip"
  shows "py_float (replace 44 46 ip) = Inr (real (digits_val ip))"
proof -
  from assms(2) have r: "replace 44 46 ip = ip"
    by (induction ip) (auto simp: replace_def is_digit_def)
  from assms(2) have tk: "takeWhile is_digit ip = ip" and dr: "dropWhile is_digit ip = []"
    by (simp_all add: list_all_iff)
  show ?thesis
    unfolding py_float_def Let_def r tk dr using assms(1) by simp
qed

lemma py_float_fraction:
  assumes "ip \<noteq> []" and "list_all is_digit ip" and "fp \<noteq> []" and "list_all is_digit fp"
    and "c = 46 \<or> c = 44"
  shows "py_float (replace 44 46 (ip @ c # fp))
           = Inr (real (digits_val ip) + real (digits_val fp) / 10 ^ length fp)"
proof -
  have rd: "replace 44 46 ds = ds" if "list_all is_digit ds" for ds
    using that by (induction ds) (auto simp: replace_def is_digit_def)
  from assms(5) have r: "replace 44 46 (ip @ c # fp) = ip @ 46 # fp"
    using rd [OF assms(2)] rd [OF assms(4)] by (auto simp: replace_def)
  have nd: "\<not> is_digit 46"
    by (simp add: is_digit_def)
  from assms(2) nd have tk: "takeWhile is_digit (ip @ 46 # fp) = ip"
    and dr: "dropWhile is_digit (ip @ 46 # fp) = 46 # fp"
    by (simp_all add: list_all_iff)
  show ?thesis
    unfolding py_float_def Let_def r tk dr using assms(1,3,4) by simp
qed

lemma ends_number_rx:
  assumes "t \<in> set (ends number_rx s)"
  shows "\<exists>g v. s = g @ t \<and> g \<noteq> [] \<and> py_float (replace 44 46 g) = Inr v \<and> 0 \<le> v"
proof -
  from assms obtain m where m: "m \<in> set (ends (Plus Digit) s)"
    and t: "t \<in> set (ends (Opt (Cat (OneOf [46, 44]) (Plus Digit))) m)"
    by (auto simp: number_rx_def)
  from ends_Plus_Digit [OF m] obtain ip where ip: "ip \<noteq> []" "s = ip @ m" "list_all is_digit ip"
    by blast
  from t have "t = m \<or> t \<in> set (ends (Cat (OneOf [46, 44]) (Plus Digit)) m)"
    by auto
  then show ?thesis
  proof
    assume "t = m"
    with ip py_float_digits [OF ip(1) ip(3)] show ?thesis
      by auto
  next
    assume "t \<in> set (ends (Cat (OneOf [46, 44]) (Plus Digit)) m)"
    then obtain c m' where c: "c = 46 \<or> c = 44" and mm: "m = c # m'"
      and t': "t \<in> set (ends (Plus Digit) m')"
      by (auto split: list.splits if_splits)
    from ends_Plus_Digit [OF t'] obtain fp where fp: "fp \<noteq> []" "m' = fp @ t" "list_all is_digit fp"
      by blast
    from ip mm fp have "s = (ip @ c # fp) @ t" "ip @ c # fp \<noteq> []"
      by simp_all
    with py_float_fraction [OF ip(1) ip(3) fp(1) fp(3) c] show ?thesis
      by (metis add_nonneg_nonneg divide_nonneg_nonneg of_nat_0_le_iff zero_le_power zero_le_numeral)
  qed
qed



lemma match_at_Some:
  assumes "match_at g r s = Some (grp, rest)"
  shows "\<exists>t. t \<in> set (ends g s) \<and> rest \<in> set (ends r t) \<and> grp = take (length s - length t) s"
proof -
  from assms obtain ms where
    "concat (map (\<lambda>t. map (\<lambda>t'. (take (length s - length t) s, t')) (ends r t)) (ends g s))
       = (grp, rest) # ms"
    by (auto simp: match_at_def split: list.splits)
  then have "(grp, rest) \<in> set (concat (map (\<lambda>t. map (\<lambda>t'. (take (length s - length t) s, t')) (ends r t)) (ends g s)))"
    by simp
  then show ?thesis
    by auto
qed


lemma match_at_number:
  assumes "match_at number_rx r s = Some (grp, rest)"
  shows "length rest < length s \<and> (\<exists>v. py_float (replace 44 46 grp) = Inr v \<and> 0 \<le> v)"
proof -
  from match_at_Some [OF assms] obtain t where t: "t \<in> set (ends number_rx s)"
    and rest: "rest \<in> set (ends r t)" and grp: "grp = take (length s - length t) s"
    by blast
  from ends_number_rx [OF t] obtain g v where g: "s = g @ t" "g \<noteq> []"
    "py_float (replace 44 46 g) = Inr v" "0 \<le> v"
    by blast
  from g(1) grp have "grp = g"
    by simp
  moreover from ends_length [OF rest] g(1,2) have "length rest < length s"
    by (cases g) auto
  ultimately show ?thesis
    using g(3,4) by blast
qed

declare findall.simps [simp del]

lemma findall_number:
  "g \<in> set (findall number_rx r s) \<Longrightarrow> \<exists>v. py_float (replace 44 46 g) = Inr v \<and> 0 \<le> v"
proof (induction number_rx r s rule: findall.induct)
  case (1 r s)
  show ?case
  proof (cases "match_at number_rx r s")
    case None
    with "1.prems" obtain c t where s: "s = c # t" and g: "g \<in> set (findall number_rx r t)"
      by (auto simp: findall.simps [of number_rx r s] split: list.splits)
    from "1.hyps"(1) [OF None s g] show ?thesis .
  next
    case (Some m)
    obtain grp rest where m: "m = (grp, rest)"
      by (cases m)
    from match_at_number [of r s grp rest] Some m
    have lt: "length rest < length s" and ok: "\<exists>v. py_float (replace 44 46 grp) = Inr v \<and> 0 \<le> v"
      by simp_all
    from "1.prems" Some m lt have "g = grp \<or> g \<in> set (findall number_rx r rest)"
      by (auto simp: findall.simps [of number_rx r s])
    then show ?thesis
    proof
      assume "g = grp"
      with ok show ?thesis
        by simp
    next
      assume "g \<in> set (findall number_rx r rest)"
      from "1.hyps"(2) [OF Some m [symmetric] lt this] show ?thesis .
    qed
  qed
qed


section \<open>From matches to the value\<close>

lemma floats_ok:
  assumes "\<And>g. g \<in> set gs \<Longrightarrow> \<exists>v. py_float (replace 44 46 g) = Inr v \<and> 0 \<le> v"
  shows "\<exists>vs. floats gs = Inr vs \<and> length vs = length gs \<and> (\<forall>v \<in> set vs. 0 \<le> v)"
  using assms
proof (induction gs)
  case Nil
  then show ?case
    by simp
next
  case (Cons g gs)
  from Cons.prems [of g] obtain v where v: "py_float (replace 44 46 g) = Inr v" "0 \<le> v"
    by auto
  from Cons.IH Cons.prems obtain vs where vs: "floats gs = Inr vs" "length vs = length gs"
    "\<forall>v \<in> set vs. 0 \<le> v"
    by auto
  from v vs have "floats (g # gs) = Inr (v # vs) \<and> length (v # vs) = length (g # gs)
      \<and> (\<forall>x \<in> set (v # vs). 0 \<le> x)"
    by simp
  then show ?case
    by blast
qed

lemma py_max_Max: "vs \<noteq> [] \<Longrightarrow> py_max vs = Inr (Max (set vs))"
  by (cases vs) (simp_all add: py_max_def Max.set_eq_fold [symmetric])

lemma parse_matches:
  assumes "ms = findall number_rx r text" and "ms \<noteq> []"
  shows "\<exists>vs. floats ms = Inr vs \<and> length vs = length ms
           \<and> (case floats ms of Inl e \<Rightarrow> Inl e | Inr vs \<Rightarrow> py_max vs) = Inr (Max (set vs))
           \<and> 0 \<le> Max (set vs)"
proof -
  have "\<exists>v. py_float (replace 44 46 g) = Inr v \<and> 0 \<le> v" if "g \<in> set ms" for g
    using that assms(1) findall_number by blast
  from floats_ok [OF this] obtain vs where vs: "floats ms = Inr vs" "length vs = length ms"
    "\<forall>v \<in> set vs. 0 \<le> v"
    by blast
  from vs(2) assms(2) have ne: "vs \<noteq> []"
    by auto
  then have "Max (set vs) \<in> set vs"
    by simp
  with vs(3) have "0 \<le> Max (set vs)"
    by blast
  with vs py_max_Max [OF ne] show ?thesis
    by simp
qed








section \<open>Greedy matching: a number followed by its unit\<close>














section \<open>Evaluation of the parsers\<close>

lemmas rx_eval = findall.simps ends_Star match_at_def number_rx_def meter_rx_def speed_rx_def
  Plus_def is_digit_def is_space_def lower_def u_def

lemmas float_eval = replace_def py_float_def digits_val_def py_max_def is_digit_def














lemma parse_length_cases:
  "(findall number_rx meter_rx text = [] \<longrightarrow>
      parse_length_meters text = Inl (ValueError msg_no_length))
   \<and> (findall number_rx meter_rx text \<noteq> [] \<longrightarrow>
        (\<exists>vs. floats (findall number_rx meter_rx text) = Inr vs
           \<and> length vs = length (findall number_rx meter_rx text)
           \<and> parse_length_meters text = Inr (Max (set vs)) \<and> 0 \<le> Max (set vs)))"
  using parse_matches [OF refl, of meter_rx "text"]
  by (auto simp: parse_length_meters_def Let_def)

lemma parse_speed_cases:
  "(findall number_rx speed_rx text = [] \<longrightarrow>
      parse_speed_kmh text = Inl (ValueError msg_no_speed))
   \<and> (findall number_rx speed_rx text \<noteq> [] \<longrightarrow>
        (\<exists>vs. floats (findall number_rx speed_rx text) = Inr vs
           \<and> length vs = length (findall number_rx speed_rx text)
           \<and> parse_speed_kmh text = Inr (Max (set vs)) \<and> 0 \<le> Max (set vs)))"
  using parse_matches [OF refl, of speed_rx "text"]
  by (auto simp: parse_speed_kmh_def Let_def)





section \<open>Text extraction\<close>







section \<open>The resolvers: what a successful path returns\<close>

lemma parse_length_nonneg: "parse_length_meters t = Inr v \<Longrightarrow> 0 \<le> v"
  using parse_length_cases [of t] by (cases "findall number_rx meter_rx t = []") auto

lemma parse_speed_nonneg: "parse_speed_kmh t = Inr v \<Longrightarrow> 0 \<le> v"
  using parse_speed_cases [of t] by (cases "findall number_rx speed_rx t = []") auto

lemma bridge_try_Inr:
  assumes "bridge_try client w = (Inr b, w')"
  shows "\<exists>(hit::WikipediaSearchResult) t len. parse_length_meters t = Inr len
           \<and> b = \<lparr>b_name = title hit, length_meters = len,
                   b_source = build_page_url (page_id hit) (base_url client)\<rparr>"
  using assms unfolding bridge_try_def
  by (auto split: prod.splits sum.splits option.splits exc.splits; blast)

lemma animal_try_Inr:
  assumes "animal_try K cap client nm w = (Inr a, w')"
  shows "\<exists>(hit::WikipediaSearchResult) t kmh url. parse_speed_kmh t = Inr kmh
           \<and> a = from_kmh (title hit) kmh (build_page_url (page_id hit) url)"
  using assms unfolding animal_try_def
  by (auto split: prod.splits sum.splits option.splits exc.splits; blast)

lemma get_bridge_nonneg: "0 \<le> length_meters (fst (get_bridge_info_big_stone_bridge client w))"
proof (cases "bridge_try client w")
  case (Pair r w')
  show ?thesis
  proof (cases r)
    case (Inl e)
    with Pair show ?thesis
      by (simp add: get_bridge_info_big_stone_bridge_def bridge_fallback_def)
  next
    case (Inr b)
    with Pair bridge_try_Inr [of client w b w'] obtain t where
      "parse_length_meters t = Inr (length_meters b)"
      by auto
    from parse_length_nonneg [OF this] Pair Inr show ?thesis
      by (simp add: get_bridge_info_big_stone_bridge_def)
  qed
qed

lemma get_animal_nonneg: "0 \<le> speed_m_s (fst (get_animal_speed K cap client nm w))"
proof (cases "animal_try K cap client nm w")
  case (Pair r w')
  show ?thesis
  proof (cases r)
    case (Inl e)
    with Pair show ?thesis
      by (simp add: get_animal_speed_def animal_fallback_def from_kmh_def kmh_to_ms_def)
  next
    case (Inr a)
    with Pair animal_try_Inr [of K cap client nm w a w'] obtain t kmh where
      "parse_speed_kmh t = Inr kmh" and "speed_m_s a = kmh / 3.6"
      by (auto simp: from_kmh_def kmh_to_ms_def)
    with parse_speed_nonneg [of t kmh] Pair Inr show ?thesis
      by (simp add: get_animal_speed_def)
  qed
qed

lemma en_api_nonempty: "en_api \<noteq> []"
  by (simp add: en_api_def u_def)

lemma new_client_en:
  "app_config K w = (Inr d, w1) \<Longrightarrow>
   new_WikipediaClient K (Some en_api) w
     = (Inr \<lparr>base_url = en_api, search_page = class_search_page K en_api,
              get_page_summary = class_get_page_summary K en_api\<rparr>, w1)"
  by (simp add: new_WikipediaClient_def en_api_nonempty)









lemma animal_search_secondary:
  assumes "search_page client nm w = (Inr None, w1)"
    and "search_page client (cap nm) w1 = (Inr None, w2)"
    and "\<not> startswith (base_url client) en_prefix"
    and "app_config K w2 = (Inr d, w3)"
    and "class_search_page K en_api (cap nm) w3 = (Inr (Some hit), w4)"
  shows "animal_search K cap client nm w
           = (Inr (Some hit, \<lparr>base_url = en_api, search_page = class_search_page K en_api,
                                get_page_summary = class_get_page_summary K en_api\<rparr>), w4)"
  using assms by (simp add: animal_search_def new_client_en)

lemma animal_try_secondary:
  assumes "animal_search K cap client nm w
           = (Inr (Some hit, \<lparr>base_url = en_api, search_page = class_search_page K en_api,
                                get_page_summary = class_get_page_summary K en_api\<rparr>), w4)"
  shows "(class_get_page_summary K en_api (page_id hit) True w4 = (Inr s, w5)
           \<and> parse_speed_kmh (sum_extract s) = Inr kmh \<longrightarrow>
          animal_try K cap client nm w
            = (Inr (from_kmh (title hit) kmh (build_page_url (page_id hit) en_api)), w5))
       \<and> (class_get_page_summary K en_api (page_id hit) True w4 = (Inr s, w5)
           \<and> parse_speed_kmh (sum_extract s) = Inl (ValueError m)
           \<and> class_get_page_summary K en_api (page_id hit) False w5 = (Inr s2, w6)
           \<and> parse_speed_kmh (sum_extract s2) = Inr kmh \<longrightarrow>
          animal_try K cap client nm w
            = (Inr (from_kmh (title hit) kmh (build_page_url (page_id hit) en_api)), w6))
       \<and> (\<forall>a w'. animal_try K cap client nm w = (Inr a, w') \<longrightarrow>
            (\<exists>kmh. a = from_kmh (title hit) kmh (build_page_url (page_id hit) en_api)))"
  unfolding animal_try_def assms
  by (auto split: prod.splits sum.splits exc.splits)


section \<open>Evaluation of the resolvers' inputs\<close>

lemma parse_length_zero: "parse_length_meters text_zero_length = Inr 0"
proof -
  have "findall number_rx meter_rx text_zero_length = [u ''0'']"
    by (simp add: text_zero_length_def rx_eval)
  moreover have "floats [u ''0''] = Inr [0]"
    by (simp add: u_def float_eval)
  ultimately show ?thesis
    by (simp add: parse_length_meters_def py_max_def)
qed

lemma parse_speed_zero: "parse_speed_kmh text_zero_speed = Inr 0"
proof -
  have "findall number_rx speed_rx text_zero_speed = [u ''0'']"
    by (simp add: text_zero_speed_def rx_eval)
  moreover have "floats [u ''0''] = Inr [0]"
    by (simp add: u_def float_eval)
  ultimately show ?thesis
    by (simp add: parse_speed_kmh_def py_max_def)
qed

lemma parse_speed_108: "parse_speed_kmh (u ''Typical speed reaches 108 km/h.'') = Inr 108"
proof -
  have "findall number_rx speed_rx (u ''Typical speed reaches 108 km/h.'') = [u ''108'']"
    by (simp add: rx_eval)
  moreover have "floats [u ''108''] = Inr [108]"
    by (simp add: u_def float_eval)
  ultimately show ?thesis
    by (simp add: parse_speed_kmh_def py_max_def)
qed

lemma parse_speed_unknown:
  "parse_speed_kmh (u ''Typical speed is unknown.'') = Inl (ValueError msg_no_speed)"
proof -
  have "findall number_rx speed_rx (u ''Typical speed is unknown.'') = []"
    by (simp add: rx_eval)
  then show ?thesis
    by (simp add: parse_speed_kmh_def)
qed

lemma split_head_en_api: "split_head (u ''/w/'') en_api = u ''https://en.wikipedia.org''"
  unfolding en_api_def u_def by (simp add: startswith_def)

lemma build_page_url_en:
  "build_page_url pid en_api = u ''https://en.wikipedia.org/?curid='' @ str_int pid"
  unfolding build_page_url_def split_head_en_api by (simp add: u_def)

lemma capitalize_cheetah: "capitalize_ascii (u ''Cheetah'') = u ''Cheetah''"
  by (simp add: capitalize_ascii_def u_def)

lemma ru_not_en: "\<not> startswith ru_api en_prefix"
  by (simp add: startswith_def ru_api_def en_prefix_def u_def)

lemma ru_is_ru: "startswith ru_api (u ''https://ru'')"
  by (simp add: startswith_def ru_api_def u_def)

lemma en_not_ru: "\<not> startswith en_api (u ''https://ru'')"
  by (simp add: startswith_def en_api_def u_def)

section \<open>Fact resolvers\<close>



text \<open>
  C9, as stated, fails: the fields are plain floats and nothing in the resolvers checks
  the sign, so a page whose text says "0" before the unit gives a bridge of length 0 and an
  animal of speed 0.
\<close>

theorem resolvers_zero_counterexample:
  "length_meters (fst (get_bridge_info_big_stone_bridge (page_client text_zero_length) ())) = 0
   \<and> \<not> 0 < length_meters (fst (get_bridge_info_big_stone_bridge (page_client text_zero_length) ()))
   \<and> speed_m_s (fst (get_animal_speed (patched_class []) capitalize_ascii
                        (page_client text_zero_speed) (u ''Cheetah'') ())) = 0
   \<and> \<not> 0 < speed_m_s (fst (get_animal_speed (patched_class []) capitalize_ascii
                            (page_client text_zero_speed) (u ''Cheetah'') ()))"
proof -
  have "get_bridge_info_big_stone_bridge (page_client text_zero_length) ()
      = (\<lparr>b_name = big_stone_bridge, length_meters = 0,
           b_source = build_page_url 1 ru_api\<rparr>, ())"
    by (simp add: get_bridge_info_big_stone_bridge_def bridge_try_def page_client_def
        page_summary_def parse_length_zero)
  moreover have "get_animal_speed (patched_class []) capitalize_ascii
        (page_client text_zero_speed) (u ''Cheetah'') ()
      = (from_kmh (u ''Cheetah'') 0 (build_page_url 1 ru_api), ())"
    by (simp add: get_animal_speed_def animal_try_def animal_search_def page_client_def
        page_summary_def parse_speed_zero)
  ultimately show ?thesis
    by (simp add: from_kmh_def kmh_to_ms_def)
qed

text \<open>
  C9, amended. Every bridge fact returned by \<open>get_bridge_info_big_stone_bridge\<close> has
  \<open>length_meters \<ge> 0\<close> and every animal fact returned by \<open>get_animal_speed\<close> has
  \<open>speed_m_s \<ge> 0\<close>, for every behaviour of the client; a page whose text parses to zero
  gives the value zero. The values of the two fallback facts, 487 and 25, are positive.
\<close>

theorem resolvers_nonnegative:
  "0 \<le> length_meters (fst (get_bridge_info_big_stone_bridge client w))
   \<and> 0 \<le> speed_m_s (fst (get_animal_speed K capitalize client animal_name w))
   \<and> length_meters (bridge_fallback e) = 487
   \<and> speed_m_s (animal_fallback animal_name e) = 25"
  using get_bridge_nonneg [of client w] get_animal_nonneg [of K capitalize client animal_name w]
  by (simp add: bridge_fallback_def animal_fallback_def from_kmh_def kmh_to_ms_def)

text \<open>
  C6, as stated, fails where the secondary search succeeds and no speed can be read from
  the page it found: the fact returned is then the fallback fact, named after the given
  animal and sourced "fallback:...", and owes nothing to the hit of the secondary client.
\<close>

theorem animal_secondary_hit_counterexample:
  "search_page (ru_client (u ''Typical speed is unknown.'')) (u ''Cheetah'') () = (Inr None, ())
   \<and> search_page (ru_client (u ''Typical speed is unknown.'')) (capitalize_ascii (u ''Cheetah'')) ()
       = (Inr None, ())
   \<and> \<not> startswith (base_url (ru_client (u ''Typical speed is unknown.''))) en_prefix
   \<and> class_search_page (patched_class (u ''Typical speed is unknown.'')) en_api
         (capitalize_ascii (u ''Cheetah'')) ()
       = (Inr (Some \<lparr>page_id = 100, title = u ''Cheetah (EN)'', snippet = None\<rparr>), ())
   \<and> get_animal_speed (patched_class (u ''Typical speed is unknown.'')) capitalize_ascii
         (ru_client (u ''Typical speed is unknown.'')) (u ''Cheetah'') ()
       = (\<lparr>a_name = u ''Cheetah (fallback)'', speed_m_s = 25,
            a_source = u ''fallback:'' @ msg_no_speed, speed_km_h = Some 90\<rparr>, ())
   \<and> a_name (fst (get_animal_speed (patched_class (u ''Typical speed is unknown.''))
                     capitalize_ascii (ru_client (u ''Typical speed is unknown.''))
                     (u ''Cheetah'') ()))
       \<noteq> u ''Cheetah (EN)''"
proof -
  let ?t = "u ''Typical speed is unknown.''"
  have p1: "search_page (ru_client ?t) (u ''Cheetah'') () = (Inr None, ())"
    by (simp add: ru_client_def patched_class_def ru_is_ru)
  have p2: "search_page (ru_client ?t) (capitalize_ascii (u ''Cheetah'')) () = (Inr None, ())"
    by (simp add: ru_client_def patched_class_def ru_is_ru)
  have ne: "\<not> startswith (base_url (ru_client ?t)) en_prefix"
    by (simp add: ru_client_def ru_not_en)
  have cfg: "app_config (patched_class ?t) () = (Inr ru_api, ())"
    by (simp add: patched_class_def)
  have cat: "u ''Cheetah'' @ u '' (EN)'' = u ''Cheetah (EN)''"
    by (simp add: u_def)
  have hit: "class_search_page (patched_class ?t) en_api (capitalize_ascii (u ''Cheetah'')) ()
      = (Inr (Some \<lparr>page_id = 100, title = u ''Cheetah (EN)'', snippet = None\<rparr>), ())"
    by (simp add: patched_class_def en_not_ru capitalize_cheetah cat)
  have sm: "class_get_page_summary (patched_class ?t) en_api pid intro ()
      = (Inr (page_summary pid ?t), ())" for pid intro
    by (simp add: patched_class_def)
  have "animal_try (patched_class ?t) capitalize_ascii (ru_client ?t) (u ''Cheetah'') ()
      = (Inl (ValueError msg_no_speed), ())"
    unfolding animal_try_def
      animal_search_secondary [where cap = capitalize_ascii and nm = "u ''Cheetah''", OF p1 p2 ne cfg hit]
    by (simp add: sm page_summary_def parse_speed_unknown)
  then have r: "get_animal_speed (patched_class ?t) capitalize_ascii (ru_client ?t) (u ''Cheetah'') ()
       = (\<lparr>a_name = u ''Cheetah (fallback)'', speed_m_s = 25,
            a_source = u ''fallback:'' @ msg_no_speed, speed_km_h = Some 90\<rparr>, ())"
    by (simp add: get_animal_speed_def animal_fallback_def from_kmh_def kmh_to_ms_def u_def)
  have "u ''Cheetah (fallback)'' \<noteq> u ''Cheetah (EN)''"
    by (simp add: u_def)
  with p1 p2 ne hit r show ?thesis
    by simp
qed

text \<open>
  C6, amended. When the search of the primary client finds nothing for the given name
  and nothing for the capitalized name, the primary client's base URL does not start with
  "https://en.wikipedia.org", and the construction of the secondary client succeeds, that
  client has the English API as its base URL and is searched with the capitalized name.
  When this search has a hit, the secondary client becomes the effective one: the summary
  is fetched from it, and whenever a speed is parsed from its introduction, or, that
  failing with a \<open>ValueError\<close>, from its full text, the fact returned has the title of the
  hit as its name, that speed, and the source built from the English base URL and the
  page id of the hit. In every case the fact returned is either of this form or the
  fallback fact.
\<close>

theorem animal_english_fallback:
  assumes "search_page client animal_name w = (Inr None, w1)"
    and "search_page client (capitalize animal_name) w1 = (Inr None, w2)"
    and "\<not> startswith (base_url client) en_prefix"
    and "app_config K w2 = (Inr d, w3)"
    and "class_search_page K en_api (capitalize animal_name) w3 = (Inr (Some hit), w4)"
  shows "animal_search K capitalize client animal_name w
           = (Inr (Some hit, \<lparr>base_url = en_api, search_page = class_search_page K en_api,
                                get_page_summary = class_get_page_summary K en_api\<rparr>), w4)
       \<and> (class_get_page_summary K en_api (page_id hit) True w4 = (Inr s, w5)
           \<and> parse_speed_kmh (sum_extract s) = Inr kmh \<longrightarrow>
          get_animal_speed K capitalize client animal_name w
            = (\<lparr>a_name = title hit, speed_m_s = kmh / 3.6,
                 a_source = u ''https://en.wikipedia.org/?curid='' @ str_int (page_id hit),
                 speed_km_h = Some kmh\<rparr>, w5))
       \<and> (class_get_page_summary K en_api (page_id hit) True w4 = (Inr s, w5)
           \<and> parse_speed_kmh (sum_extract s) = Inl (ValueError m)
           \<and> class_get_page_summary K en_api (page_id hit) False w5 = (Inr s2, w6)
           \<and> parse_speed_kmh (sum_extract s2) = Inr kmh \<longrightarrow>
          get_animal_speed K capitalize client animal_name w
            = (\<lparr>a_name = title hit, speed_m_s = kmh / 3.6,
                 a_source = u ''https://en.wikipedia.org/?curid='' @ str_int (page_id hit),
                 speed_km_h = Some kmh\<rparr>, w6))
       \<and> ((\<exists>v w'. get_animal_speed K capitalize client animal_name w
                     = (\<lparr>a_name = title hit, speed_m_s = v / 3.6,
                          a_source = u ''https://en.wikipedia.org/?curid='' @ str_int (page_id hit),
                          speed_km_h = Some v\<rparr>, w'))
          \<or> (\<exists>e w'. get_animal_speed K capitalize client animal_name w
                       = (\<lparr>a_name = animal_name @ u '' (fallback)'', speed_m_s = 90 / 3.6,
                            a_source = u ''fallback:'' @ exc_str e, speed_km_h = Some 90\<rparr>, w')))"
proof -
  note sec = animal_search_secondary [where cap = capitalize and nm = animal_name, OF assms]
  note tr = animal_try_secondary [OF sec, of s w5 kmh m s2 w6]
  have url: "from_kmh (title hit) v (build_page_url (page_id hit) en_api)
      = \<lparr>a_name = title hit, speed_m_s = v / 3.6,
         a_source = u ''https://en.wikipedia.org/?curid='' @ str_int (page_id hit),
         speed_km_h = Some v\<rparr>" for v
    by (simp add: from_kmh_def kmh_to_ms_def build_page_url_en)
  from tr have 1: "class_get_page_summary K en_api (page_id hit) True w4 = (Inr s, w5)
           \<and> parse_speed_kmh (sum_extract s) = Inr kmh \<longrightarrow>
          get_animal_speed K capitalize client animal_name w
            = (\<lparr>a_name = title hit, speed_m_s = kmh / 3.6,
                 a_source = u ''https://en.wikipedia.org/?curid='' @ str_int (page_id hit),
                 speed_km_h = Some kmh\<rparr>, w5)"
    by (auto simp: get_animal_speed_def url)
  from tr have 2: "class_get_page_summary K en_api (page_id hit) True w4 = (Inr s, w5)
           \<and> parse_speed_kmh (sum_extract s) = Inl (ValueError m)
           \<and> class_get_page_summary K en_api (page_id hit) False w5 = (Inr s2, w6)
           \<and> parse_speed_kmh (sum_extract s2) = Inr kmh \<longrightarrow>
          get_animal_speed K capitalize client animal_name w
            = (\<lparr>a_name = title hit, speed_m_s = kmh / 3.6,
                 a_source = u ''https://en.wikipedia.org/?curid='' @ str_int (page_id hit),
                 speed_km_h = Some kmh\<rparr>, w6)"
    by (auto simp: get_animal_speed_def url)
  have 3: "(\<exists>v w'. get_animal_speed K capitalize client animal_name w
                     = (\<lparr>a_name = title hit, speed_m_s = v / 3.6,
                          a_source = u ''https://en.wikipedia.org/?curid='' @ str_int (page_id hit),
                          speed_km_h = Some v\<rparr>, w'))
          \<or> (\<exists>e w'. get_animal_speed K capitalize client animal_name w
                       = (\<lparr>a_name = animal_name @ u '' (fallback)'', speed_m_s = 90 / 3.6,
                            a_source = u ''fallback:'' @ exc_str e, speed_km_h = Some 90\<rparr>, w'))"
  proof (cases "animal_try K capitalize client animal_name w")
    case (Pair r w')
    show ?thesis
    proof (cases r)
      case (Inl e)
      with Pair have "get_animal_speed K capitalize client animal_name w
          = (\<lparr>a_name = animal_name @ u '' (fallback)'', speed_m_s = 90 / 3.6,
               a_source = u ''fallback:'' @ exc_str e, speed_km_h = Some 90\<rparr>, w')"
        by (simp add: get_animal_speed_def animal_fallback_def from_kmh_def kmh_to_ms_def)
      then show ?thesis
        by blast
    next
      case (Inr a)
      with Pair tr obtain v where "a = from_kmh (title hit) v (build_page_url (page_id hit) en_api)"
        by blast
      with Pair Inr have "get_animal_speed K capitalize client animal_name w
          = (\<lparr>a_name = title hit, speed_m_s = v / 3.6,
               a_source = u ''https://en.wikipedia.org/?curid='' @ str_int (page_id hit),
               speed_km_h = Some v\<rparr>, w')"
        by (simp add: get_animal_speed_def url)
      then show ?thesis
        by blast
    qed
  qed
  from sec 1 2 3 show ?thesis
    by blast
qed

theorem animal_english_fallback_witness:
  "search_page (ru_client (u ''Typical speed reaches 108 km/h.'')) (u ''Cheetah'') () = (Inr None, ())
   \<and> search_page (ru_client (u ''Typical speed reaches 108 km/h.'')) (capitalize_ascii (u ''Cheetah'')) ()
       = (Inr None, ())
   \<and> \<not> startswith (base_url (ru_client (u ''Typical speed reaches 108 km/h.''))) en_prefix
   \<and> app_config (patched_class (u ''Typical speed reaches 108 km/h.'')) () = (Inr ru_api, ())
   \<and> class_search_page (patched_class (u ''Typical speed reaches 108 km/h.'')) en_api
         (capitalize_ascii (u ''Cheetah'')) ()
       = (Inr (Some \<lparr>page_id = 100, title = u ''Cheetah (EN)'', snippet = None\<rparr>), ())
   \<and> get_animal_speed (patched_class (u ''Typical speed reaches 108 km/h.'')) capitalize_ascii
         (ru_client (u ''Typical speed reaches 108 km/h.'')) (u ''Cheetah'') ()
       = (\<lparr>a_name = u ''Cheetah (EN)'', speed_m_s = 30,
            a_source = u ''https://en.wikipedia.org/?curid=100'', speed_km_h = Some 108\<rparr>, ())"
proof -
  let ?t = "u ''Typical speed reaches 108 km/h.''"
  let ?hit = "\<lparr>page_id = 100, title = u ''Cheetah (EN)'', snippet = None\<rparr>"
  have p1: "search_page (ru_client ?t) (u ''Cheetah'') () = (Inr None, ())"
    by (simp add: ru_client_def patched_class_def ru_is_ru)
  have p2: "search_page (ru_client ?t) (capitalize_ascii (u ''Cheetah'')) () = (Inr None, ())"
    by (simp add: ru_client_def patched_class_def ru_is_ru)
  have ne: "\<not> startswith (base_url (ru_client ?t)) en_prefix"
    by (simp add: ru_client_def ru_not_en)
  have cfg: "app_config (patched_class ?t) () = (Inr ru_api, ())"
    by (simp add: patched_class_def)
  have cat: "u ''Cheetah'' @ u '' (EN)'' = u ''Cheetah (EN)''"
    by (simp add: u_def)
  have hit: "class_search_page (patched_class ?t) en_api (capitalize_ascii (u ''Cheetah'')) ()
      = (Inr (Some ?hit), ())"
    by (simp add: patched_class_def en_not_ru capitalize_cheetah cat)
  have sm: "class_get_page_summary (patched_class ?t) en_api (page_id ?hit) True ()
      = (Inr (page_summary 100 ?t), ())"
    by (simp add: patched_class_def)
  have ps: "parse_speed_kmh (sum_extract (page_summary 100 ?t)) = Inr 108"
    by (simp add: page_summary_def parse_speed_108)
  from animal_english_fallback [where capitalize = capitalize_ascii and animal_name = "u ''Cheetah''"
      and s = "page_summary 100 ?t" and ?w5.0 = "()" and kmh = 108, OF p1 p2 ne cfg hit] sm ps
  have "get_animal_speed (patched_class ?t) capitalize_ascii (ru_client ?t) (u ''Cheetah'') ()
      = (\<lparr>a_name = title ?hit, speed_m_s = 108 / 3.6,
           a_source = u ''https://en.wikipedia.org/?curid='' @ str_int (page_id ?hit),
           speed_km_h = Some 108\<rparr>, ())"
    by blast
  then have "get_animal_speed (patched_class ?t) capitalize_ascii (ru_client ?t) (u ''Cheetah'') ()
       = (\<lparr>a_name = u ''Cheetah (EN)'', speed_m_s = 30,
            a_source = u ''https://en.wikipedia.org/?curid=100'', speed_km_h = Some 108\<rparr>, ())"
    by (simp add: str_int_def u_def)
  with p1 p2 ne cfg hit show ?thesis
    by blast
qed

end
